theory Spec2Isabelle
  imports Complex_Main "HOL-Library.Monad_Syntax"
begin

section \<open>Data model\<close>

text \<open>
  The program \<^verbatim>\<open>Coordinate_Transformation.py\<close> works on numpy arrays of shape (3,) and (3, 3)
  holding float64 numbers. The embedding idealises float64 as \<^typ>\<open>real\<close>: every arithmetic
  operation of numpy is the exact operation on reals, so rounding error is outside this model.
  Arrays of another shape are excluded by the types. The section on float64 arithmetic below
  gives the same functions with the rounding of every operation written out; it decides the
  claims on which rounding changes the answer.
\<close>

datatype vec3 = Vec3 real real real

datatype mat3 = Mat3 vec3 vec3 vec3

text \<open>The numpy operators the program uses: \<^verbatim>\<open>+\<close>, \<^verbatim>\<open>-\<close> on vectors, \<^verbatim>\<open>@\<close> on a matrix
  and a vector, \<^verbatim>\<open>@\<close> on two matrices, and the attribute \<^verbatim>\<open>.T\<close>. A matrix is the triple of
  its rows.\<close>

fun vec_add :: "vec3 \<Rightarrow> vec3 \<Rightarrow> vec3" where
  "vec_add (Vec3 a b c) (Vec3 x y z) = Vec3 (a + x) (b + y) (c + z)"

fun vec_sub :: "vec3 \<Rightarrow> vec3 \<Rightarrow> vec3" where
  "vec_sub (Vec3 a b c) (Vec3 x y z) = Vec3 (a - x) (b - y) (c - z)"

fun dot :: "vec3 \<Rightarrow> vec3 \<Rightarrow> real" where
  "dot (Vec3 a b c) (Vec3 x y z) = a * x + b * y + c * z"

fun mat_vec :: "mat3 \<Rightarrow> vec3 \<Rightarrow> vec3" where
  "mat_vec (Mat3 r1 r2 r3) v = Vec3 (dot r1 v) (dot r2 v) (dot r3 v)"

fun mat_T :: "mat3 \<Rightarrow> mat3" where
  "mat_T (Mat3 (Vec3 a b c) (Vec3 d e f) (Vec3 g h i)) =
     Mat3 (Vec3 a d g) (Vec3 b e h) (Vec3 c f i)"

fun mat_mul :: "mat3 \<Rightarrow> mat3 \<Rightarrow> mat3" where
  "mat_mul (Mat3 r1 r2 r3) m =
     (case mat_T m of Mat3 c1 c2 c3 \<Rightarrow>
        Mat3 (Vec3 (dot r1 c1) (dot r1 c2) (dot r1 c3))
             (Vec3 (dot r2 c1) (dot r2 c2) (dot r2 c3))
             (Vec3 (dot r3 c1) (dot r3 c2) (dot r3 c3)))"

definition mat_id :: mat3 where
  "mat_id = Mat3 (Vec3 1 0 0) (Vec3 0 1 0) (Vec3 0 0 1)"

fun det :: "mat3 \<Rightarrow> real" where
  "det (Mat3 (Vec3 a b c) (Vec3 d e f) (Vec3 g h i)) =
     a * (e * i - f * h) - b * (d * i - f * g) + c * (d * h - e * g)"

section \<open>Rotation matrices\<close>

text \<open>\<^verbatim>\<open>np.radians\<close> converts degrees to radians.\<close>

definition radians :: "real \<Rightarrow> real" where
  "radians deg = deg * pi / 180"

definition rot_x :: "real \<Rightarrow> mat3" where
  "rot_x deg =
     (let rad = radians deg in
      Mat3 (Vec3 1 0 0)
           (Vec3 0 (cos rad) (- sin rad))
           (Vec3 0 (sin rad) (cos rad)))"

definition rot_y :: "real \<Rightarrow> mat3" where
  "rot_y deg =
     (let rad = radians deg in
      Mat3 (Vec3 (cos rad) 0 (sin rad))
           (Vec3 0 1 0)
           (Vec3 (- sin rad) 0 (cos rad)))"

definition rot_z :: "real \<Rightarrow> mat3" where
  "rot_z deg =
     (let rad = radians deg in
      Mat3 (Vec3 (cos rad) (- sin rad) 0)
           (Vec3 (sin rad) (cos rad) 0)
           (Vec3 0 0 1))"

section \<open>Coordinate systems and objects\<close>

record CoordinateSystem =
  origin :: vec3
  R :: mat3

text \<open>The body of \<^verbatim>\<open>CoordinateSystem.__init__\<close>. Python's \<^verbatim>\<open>Rz @ Ry @ Rx\<close> associates to
  the left.\<close>

definition CoordinateSystem_init :: "vec3 \<Rightarrow> real \<Rightarrow> real \<Rightarrow> real \<Rightarrow> CoordinateSystem" where
  "CoordinateSystem_init origin0 x_deg y_deg z_deg =
     (let Rx = rot_x x_deg;
          Ry = rot_y y_deg;
          Rz = rot_z z_deg
      in \<lparr> origin = origin0, R = mat_mul (mat_mul Rz Ry) Rx \<rparr>)"

text \<open>A call of a constructor may leave out any of the three angles; the parameter then
  takes its default \<^verbatim>\<open>0\<close>. An omitted argument is \<^const>\<open>None\<close>.\<close>

definition arg_default :: "real option \<Rightarrow> real \<Rightarrow> real" where
  "arg_default a d = (case a of None \<Rightarrow> d | Some v \<Rightarrow> v)"

definition CoordinateSystem_call ::
  "vec3 \<Rightarrow> real option \<Rightarrow> real option \<Rightarrow> real option \<Rightarrow> CoordinateSystem" where
  "CoordinateSystem_call origin0 x_deg y_deg z_deg =
     CoordinateSystem_init origin0 (arg_default x_deg 0) (arg_default y_deg 0) (arg_default z_deg 0)"

record Object =
  position :: vec3
  rotation :: mat3

definition Object_init :: "vec3 \<Rightarrow> real \<Rightarrow> real \<Rightarrow> real \<Rightarrow> Object" where
  "Object_init position0 x_deg y_deg z_deg =
     (let Rx = rot_x x_deg;
          Ry = rot_y y_deg;
          Rz = rot_z z_deg
      in \<lparr> position = position0, rotation = mat_mul (mat_mul Rz Ry) Rx \<rparr>)"

definition Object_call ::
  "vec3 \<Rightarrow> real option \<Rightarrow> real option \<Rightarrow> real option \<Rightarrow> Object" where
  "Object_call position0 x_deg y_deg z_deg =
     Object_init position0 (arg_default x_deg 0) (arg_default y_deg 0) (arg_default z_deg 0)"

section \<open>Transformations\<close>

text \<open>\<^verbatim>\<open>np.array(point, float)\<close> copies its argument and converts the entries to float; on
  values it is the identity.\<close>

definition transform_point :: "vec3 \<Rightarrow> CoordinateSystem \<Rightarrow> CoordinateSystem \<Rightarrow> vec3" where
  "transform_point point cs1 cs2 =
     (let point_global = vec_add (origin cs1) (mat_vec (R cs1) point)
      in mat_vec (mat_T (R cs2)) (vec_sub point_global (origin cs2)))"

definition transform_object :: "Object \<Rightarrow> CoordinateSystem \<Rightarrow> CoordinateSystem \<Rightarrow> Object" where
  "transform_object obj cs1 cs2 =
     (let new_position = transform_point (position obj) cs1 cs2;
          rotation_global = mat_mul (R cs1) (rotation obj);
          new_rotation = mat_mul (mat_T (R cs2)) rotation_global;
          out = Object_call new_position None None None
      in out\<lparr> rotation := new_rotation \<rparr>)"

section \<open>Rotations and closeness\<close>

text \<open>A proper rotation: the matrix times its transpose is the identity and its determinant
  is one.\<close>

definition is_rotation :: "mat3 \<Rightarrow> bool" where
  "is_rotation M \<longleftrightarrow> mat_mul M (mat_T M) = mat_id \<and> det M = 1"

text \<open>The self-test of the program compares with \<^verbatim>\<open>np.allclose(a, b, rtol, atol)\<close>, which
  holds when \<open>\<bar>a - b\<bar> \<le> atol + rtol * \<bar>b\<bar>\<close> for every pair of entries; the defaults of numpy
  are \<open>rtol = 1e-05\<close> and \<open>atol = 1e-08\<close>.\<close>

definition isclose :: "real \<Rightarrow> real \<Rightarrow> real \<Rightarrow> real \<Rightarrow> bool" where
  "isclose a b rtol atol \<longleftrightarrow> \<bar>a - b\<bar> \<le> atol + rtol * \<bar>b\<bar>"

fun vec_allclose :: "vec3 \<Rightarrow> vec3 \<Rightarrow> real \<Rightarrow> real \<Rightarrow> bool" where
  "vec_allclose (Vec3 a b c) (Vec3 x y z) rtol atol \<longleftrightarrow>
     isclose a x rtol atol \<and> isclose b y rtol atol \<and> isclose c z rtol atol"


text \<open>The adjugate of a matrix, used to turn a right inverse into a left inverse.\<close>

fun adj :: "mat3 \<Rightarrow> mat3" where
  "adj (Mat3 (Vec3 a b c) (Vec3 d e f) (Vec3 g h i)) =
     Mat3 (Vec3 (e * i - f * h) (c * h - b * i) (b * f - c * e))
          (Vec3 (f * g - d * i) (a * i - c * g) (c * d - a * f))
          (Vec3 (d * h - e * g) (b * g - a * h) (a * e - b * d))"

text \<open>The sine of six degrees is a root of this polynomial: \<open>sin (5 * x) - 1 / 2\<close> written in
  \<open>s = sin x\<close> is \<open>(s - 1 / 2) * quartic s\<close>.\<close>

definition quartic :: "real \<Rightarrow> real" where
  "quartic s = 16 * s ^ 4 + 8 * s ^ 3 - 16 * s ^ 2 - 8 * s + 1"

section \<open>The program on a store\<close>

text \<open>
  In Python the arrays and the instances are objects on the heap, and a variable or an
  attribute holds a reference. The store is the list of allocated cells; a reference is an
  index into it, and an allocation appends a cell. An instance maps attribute names to
  references; assigning an attribute puts the new entry in front, where the lookup finds it
  first. Every numpy operation of the program returns a freshly allocated array. The
  attribute \<^verbatim>\<open>.T\<close> returns a view on the buffer of its array; the program never writes into
  an array, so the view is a fresh cell holding the transposed entries. An operation on a
  reference that is dangling or of the wrong kind is \<^const>\<open>None\<close> here: Python raises, or numpy
  broadcasts to an array of another shape, which is outside the model.
\<close>

datatype cls = CoordinateSystem_cls | Object_cls

datatype cell = Array1 vec3 | Array2 mat3 | Instance cls "(string \<times> nat) list"

type_synonym heap = "cell list"

definition alloc :: "cell \<Rightarrow> heap \<Rightarrow> nat \<times> heap" where
  "alloc c h = (length h, h @ [c])"

definition deref :: "heap \<Rightarrow> nat \<Rightarrow> cell option" where
  "deref h a = (if a < length h then Some (h ! a) else None)"

definition get_vec :: "heap \<Rightarrow> nat \<Rightarrow> vec3 option" where
  "get_vec h a = (case deref h a of Some (Array1 v) \<Rightarrow> Some v | _ \<Rightarrow> None)"

definition get_mat :: "heap \<Rightarrow> nat \<Rightarrow> mat3 option" where
  "get_mat h a = (case deref h a of Some (Array2 m) \<Rightarrow> Some m | _ \<Rightarrow> None)"

definition getattr :: "heap \<Rightarrow> nat \<Rightarrow> string \<Rightarrow> nat option" where
  "getattr h a name = (case deref h a of Some (Instance c attrs) \<Rightarrow> map_of attrs name | _ \<Rightarrow> None)"

definition setattr :: "nat \<Rightarrow> string \<Rightarrow> nat \<Rightarrow> heap \<Rightarrow> heap option" where
  "setattr a name v h =
     (case deref h a of
        Some (Instance c attrs) \<Rightarrow> Some (h[a := Instance c ((name, v) # attrs)])
      | _ \<Rightarrow> None)"

text \<open>\<^verbatim>\<open>np.array(a, float)\<close> on an array: a copy.\<close>

definition np_array :: "nat \<Rightarrow> heap \<Rightarrow> (nat \<times> heap) option" where
  "np_array a h = do { v \<leftarrow> get_vec h a; Some (alloc (Array1 v) h) }"

definition np_add :: "nat \<Rightarrow> nat \<Rightarrow> heap \<Rightarrow> (nat \<times> heap) option" where
  "np_add a b h = do { u \<leftarrow> get_vec h a; v \<leftarrow> get_vec h b; Some (alloc (Array1 (vec_add u v)) h) }"

definition np_sub :: "nat \<Rightarrow> nat \<Rightarrow> heap \<Rightarrow> (nat \<times> heap) option" where
  "np_sub a b h = do { u \<leftarrow> get_vec h a; v \<leftarrow> get_vec h b; Some (alloc (Array1 (vec_sub u v)) h) }"

definition np_matvec :: "nat \<Rightarrow> nat \<Rightarrow> heap \<Rightarrow> (nat \<times> heap) option" where
  "np_matvec a b h = do { m \<leftarrow> get_mat h a; v \<leftarrow> get_vec h b; Some (alloc (Array1 (mat_vec m v)) h) }"

definition np_matmul :: "nat \<Rightarrow> nat \<Rightarrow> heap \<Rightarrow> (nat \<times> heap) option" where
  "np_matmul a b h = do { m \<leftarrow> get_mat h a; n \<leftarrow> get_mat h b; Some (alloc (Array2 (mat_mul m n)) h) }"

definition np_T :: "nat \<Rightarrow> heap \<Rightarrow> (nat \<times> heap) option" where
  "np_T a h = do { m \<leftarrow> get_mat h a; Some (alloc (Array2 (mat_T m)) h) }"

definition transform_point_st :: "nat \<Rightarrow> nat \<Rightarrow> nat \<Rightarrow> heap \<Rightarrow> (nat \<times> heap) option" where
  "transform_point_st point cs1 cs2 h0 = do {
     (point', h1) \<leftarrow> np_array point h0;
     cs1_origin \<leftarrow> getattr h1 cs1 ''origin'';
     cs1_R \<leftarrow> getattr h1 cs1 ''R'';
     (t, h2) \<leftarrow> np_matvec cs1_R point' h1;
     (point_global, h3) \<leftarrow> np_add cs1_origin t h2;
     cs2_R \<leftarrow> getattr h3 cs2 ''R'';
     (cs2_R_T, h4) \<leftarrow> np_T cs2_R h3;
     cs2_origin \<leftarrow> getattr h4 cs2 ''origin'';
     (d, h5) \<leftarrow> np_sub point_global cs2_origin h4;
     np_matvec cs2_R_T d h5
   }"

text \<open>\<^verbatim>\<open>Object.__init__\<close>, and the call \<^verbatim>\<open>Object(position, ...)\<close> that allocates the instance
  and runs it.\<close>

definition Object_init_st ::
  "nat \<Rightarrow> nat \<Rightarrow> real \<Rightarrow> real \<Rightarrow> real \<Rightarrow> heap \<Rightarrow> heap option" where
  "Object_init_st self position0 x_deg y_deg z_deg h0 = do {
     (p, h1) \<leftarrow> np_array position0 h0;
     h2 \<leftarrow> setattr self ''position'' p h1;
     (Rx, h3) \<leftarrow> Some (alloc (Array2 (rot_x x_deg)) h2);
     (Ry, h4) \<leftarrow> Some (alloc (Array2 (rot_y y_deg)) h3);
     (Rz, h5) \<leftarrow> Some (alloc (Array2 (rot_z z_deg)) h4);
     (RzRy, h6) \<leftarrow> np_matmul Rz Ry h5;
     (r, h7) \<leftarrow> np_matmul RzRy Rx h6;
     setattr self ''rotation'' r h7
   }"

definition Object_new ::
  "nat \<Rightarrow> real option \<Rightarrow> real option \<Rightarrow> real option \<Rightarrow> heap \<Rightarrow> (nat \<times> heap) option" where
  "Object_new position0 x_deg y_deg z_deg h0 = do {
     (self, h1) \<leftarrow> Some (alloc (Instance Object_cls []) h0);
     h2 \<leftarrow> Object_init_st self position0
             (arg_default x_deg 0) (arg_default y_deg 0) (arg_default z_deg 0) h1;
     Some (self, h2)
   }"

definition transform_object_st :: "nat \<Rightarrow> nat \<Rightarrow> nat \<Rightarrow> heap \<Rightarrow> (nat \<times> heap) option" where
  "transform_object_st obj cs1 cs2 h0 = do {
     obj_position \<leftarrow> getattr h0 obj ''position'';
     (new_position, h1) \<leftarrow> transform_point_st obj_position cs1 cs2 h0;
     cs1_R \<leftarrow> getattr h1 cs1 ''R'';
     obj_rotation \<leftarrow> getattr h1 obj ''rotation'';
     (rotation_global, h2) \<leftarrow> np_matmul cs1_R obj_rotation h1;
     cs2_R \<leftarrow> getattr h2 cs2 ''R'';
     (cs2_R_T, h3) \<leftarrow> np_T cs2_R h2;
     (new_rotation, h4) \<leftarrow> np_matmul cs2_R_T rotation_global h3;
     (out, h5) \<leftarrow> Object_new new_position None None None h4;
     h6 \<leftarrow> setattr out ''rotation'' new_rotation h5;
     Some (out, h6)
   }"

text \<open>The value an instance stands for: the pure records of the sections above.\<close>

definition read_Object :: "heap \<Rightarrow> nat \<Rightarrow> Object option" where
  "read_Object h a = do {
     p \<leftarrow> getattr h a ''position'';
     r \<leftarrow> getattr h a ''rotation'';
     v \<leftarrow> get_vec h p;
     m \<leftarrow> get_mat h r;
     Some \<lparr> position = v, rotation = m \<rparr>
   }"

definition read_CoordinateSystem :: "heap \<Rightarrow> nat \<Rightarrow> CoordinateSystem option" where
  "read_CoordinateSystem h a = do {
     p \<leftarrow> getattr h a ''origin'';
     r \<leftarrow> getattr h a ''R'';
     v \<leftarrow> get_vec h p;
     m \<leftarrow> get_mat h r;
     Some \<lparr> origin = v, R = m \<rparr>
   }"

text \<open>The cells that a run of each function appends to the store.\<close>

definition transform_point_cells :: "vec3 \<Rightarrow> CoordinateSystem \<Rightarrow> CoordinateSystem \<Rightarrow> cell list" where
  "transform_point_cells p c1 c2 =
     [Array1 p,
      Array1 (mat_vec (R c1) p),
      Array1 (vec_add (origin c1) (mat_vec (R c1) p)),
      Array2 (mat_T (R c2)),
      Array1 (vec_sub (vec_add (origin c1) (mat_vec (R c1) p)) (origin c2)),
      Array1 (transform_point p c1 c2)]"

definition Object_new_cells :: "nat \<Rightarrow> vec3 \<Rightarrow> real \<Rightarrow> real \<Rightarrow> real \<Rightarrow> cell list" where
  "Object_new_cells a p x y z =
     [Instance Object_cls [(''rotation'', a + 6), (''position'', a + 1)],
      Array1 p,
      Array2 (rot_x x),
      Array2 (rot_y y),
      Array2 (rot_z z),
      Array2 (mat_mul (rot_z z) (rot_y y)),
      Array2 (mat_mul (mat_mul (rot_z z) (rot_y y)) (rot_x x))]"

definition transform_object_cells ::
  "nat \<Rightarrow> Object \<Rightarrow> CoordinateSystem \<Rightarrow> CoordinateSystem \<Rightarrow> cell list" where
  "transform_object_cells a ob c1 c2 =
     transform_point_cells (position ob) c1 c2 @
     [Array2 (mat_mul (R c1) (rotation ob)),
      Array2 (mat_T (R c2)),
      Array2 (mat_mul (mat_T (R c2)) (mat_mul (R c1) (rotation ob))),
      Instance Object_cls [(''rotation'', a + 8), (''rotation'', a + 15), (''position'', a + 10)],
      Array1 (transform_point (position ob) c1 c2),
      Array2 (rot_x 0),
      Array2 (rot_y 0),
      Array2 (rot_z 0),
      Array2 (mat_mul (rot_z 0) (rot_y 0)),
      Array2 (mat_mul (mat_mul (rot_z 0) (rot_y 0)) (rot_x 0))]"

text \<open>A store with an object at reference 2 and two coordinate systems at 5 and 8.\<close>

definition example_heap :: heap where
  "example_heap =
     [Array1 (Vec3 1 0 0), Array2 mat_id,
      Instance Object_cls [(''rotation'', 1), (''position'', 0)],
      Array1 (Vec3 0 0 0), Array2 mat_id,
      Instance CoordinateSystem_cls [(''R'', 4), (''origin'', 3)],
      Array1 (Vec3 10 5 3), Array2 (rot_z 90),
      Instance CoordinateSystem_cls [(''R'', 7), (''origin'', 6)]]"


section \<open>The program in float64 arithmetic\<close>

text \<open>
  A finite float64 number is the real it denotes; \<^const>\<open>None\<close> stands for a result that is not
  finite (an infinity or NaN), which every later \<^verbatim>\<open>+\<close>, \<^verbatim>\<open>-\<close> and \<^verbatim>\<open>*\<close> keeps. The two zeros
  are not told apart. \<open>f64_round\<close> is the rounding of IEEE 754 binary64: to the nearest
  number with 53 significant bits, ties to the even one, with the least exponent -1022 (so
  the spacing never falls below \<open>2 ^ -1074\<close>) and overflow from \<open>2 ^ 1024\<close> on.
\<close>

definition rne :: "real \<Rightarrow> int" where
  "rne x =
     (let f = \<lfloor>x\<rfloor>; d = x - of_int f in
      if d < 1 / 2 then f else if 1 / 2 < d then f + 1 else if even f then f else f + 1)"

definition pow2 :: "int \<Rightarrow> real" where
  "pow2 e = (if 0 \<le> e then 2 ^ nat e else 1 / 2 ^ nat (- e))"

definition f64_round :: "real \<Rightarrow> real option" where
  "f64_round x =
     (if x = 0 then Some 0
      else let e = max \<lfloor>log 2 \<bar>x\<bar>\<rfloor> (- 1022);
               q = pow2 (e - 52);
               y = of_int (rne (x / q)) * q
           in if \<bar>y\<bar> < 2 ^ 1024 then Some y else None)"




























section \<open>Magnitudes\<close>



section \<open>Algebra of 3x3 matrices\<close>

lemma mat_mul_assoc: "mat_mul (mat_mul A B) C = mat_mul A (mat_mul B C)"
proof -
  obtain a1 a2 a3 where A: "A = Mat3 a1 a2 a3" by (cases A)
  obtain b1 b2 b3 where B: "B = Mat3 b1 b2 b3" by (cases B)
  obtain c1 c2 c3 where C: "C = Mat3 c1 c2 c3" by (cases C)
  show ?thesis
    unfolding A B C
    by (cases a1; cases a2; cases a3; cases b1; cases b2; cases b3; cases c1; cases c2; cases c3)
       (simp add: algebra_simps)
qed

lemma mat_T_T: "mat_T (mat_T A) = A"
  by (induction A rule: mat_T.induct) simp

lemma mat_T_mul: "mat_T (mat_mul A B) = mat_mul (mat_T B) (mat_T A)"
proof (induction A rule: mat_T.induct)
  case (1 a b c d e f g h i)
  show ?case by (induction B rule: mat_T.induct) (simp add: algebra_simps)
qed

lemma mat_mul_id_left: "mat_mul mat_id A = A"
  by (induction A rule: mat_T.induct) (simp add: mat_id_def)

lemma mat_mul_id_right: "mat_mul A mat_id = A"
  by (induction A rule: mat_T.induct) (simp add: mat_id_def)



lemma det_T: "det (mat_T A) = det A"
  by (induction A rule: mat_T.induct) (simp add: algebra_simps)

lemma det_mul: "det (mat_mul A B) = det A * det B"
proof (induction A rule: mat_T.induct)
  case (1 a b c d e f g h i)
  show ?case by (induction B rule: mat_T.induct) (simp add: algebra_simps)
qed

lemma det_id: "det mat_id = 1"
  by (simp add: mat_id_def)



lemma adj_mul: "det A = 1 \<Longrightarrow> mat_mul (adj A) A = mat_id"
  by (induction A rule: mat_T.induct) (simp add: mat_id_def algebra_simps)

section \<open>Rotations\<close>

lemma is_rotation_left: 
  assumes "is_rotation M" shows "mat_mul (mat_T M) M = mat_id"
proof -
  from assms have r: "mat_mul M (mat_T M) = mat_id" and d: "det M = 1"
    by (simp_all add: is_rotation_def)
  have "adj M = mat_mul (adj M) (mat_mul M (mat_T M))"
    by (simp add: r mat_mul_id_right)
  also have "\<dots> = mat_mul (mat_mul (adj M) M) (mat_T M)"
    by (simp add: mat_mul_assoc)
  also have "\<dots> = mat_T M"
    by (simp add: adj_mul [OF d] mat_mul_id_left)
  finally have "adj M = mat_T M" .
  with adj_mul [OF d] show ?thesis by simp
qed

lemma is_rotation_rot_x: "is_rotation (rot_x deg)"
  by (simp add: is_rotation_def rot_x_def Let_def mat_id_def algebra_simps power2_eq_square [symmetric])

lemma is_rotation_rot_y: "is_rotation (rot_y deg)"
  by (simp add: is_rotation_def rot_y_def Let_def mat_id_def algebra_simps power2_eq_square [symmetric])

lemma is_rotation_rot_z: "is_rotation (rot_z deg)"
  by (simp add: is_rotation_def rot_z_def Let_def mat_id_def algebra_simps power2_eq_square [symmetric])

lemma is_rotation_mul:
  assumes "is_rotation A" "is_rotation B" shows "is_rotation (mat_mul A B)"
proof -
  have "mat_mul (mat_mul A B) (mat_T (mat_mul A B)) = mat_mul A (mat_mul (mat_mul B (mat_T B)) (mat_T A))"
    by (simp add: mat_T_mul mat_mul_assoc)
  also have "\<dots> = mat_id"
    using assms by (simp add: is_rotation_def mat_mul_id_left)
  finally show ?thesis using assms by (simp add: is_rotation_def det_mul)
qed

lemma is_rotation_T:
  assumes "is_rotation A" shows "is_rotation (mat_T A)"
  using is_rotation_left [OF assms] assms by (simp add: is_rotation_def mat_T_T det_T)

lemma is_rotation_CoordinateSystem_init: "is_rotation (R (CoordinateSystem_init origin0 x y z))"
  by (simp add: CoordinateSystem_init_def Let_def is_rotation_mul is_rotation_rot_x is_rotation_rot_y is_rotation_rot_z)

lemma is_rotation_Object_init: "is_rotation (rotation (Object_init p x y z))"
  by (simp add: Object_init_def Let_def is_rotation_mul is_rotation_rot_x is_rotation_rot_y is_rotation_rot_z)



lemma vec_allclose_refl: "0 \<le> rtol \<Longrightarrow> 0 \<le> atol \<Longrightarrow> vec_allclose v v rtol atol"
  by (cases v) (simp add: isclose_def)


lemma is_rotation_CoordinateSystem_call: "is_rotation (R (CoordinateSystem_call origin0 x y z))"
  by (simp add: CoordinateSystem_call_def is_rotation_CoordinateSystem_init)

lemma is_rotation_Object_call: "is_rotation (rotation (Object_call p x y z))"
  by (simp add: Object_call_def is_rotation_Object_init)

lemma position_transform_object:
  "position (transform_object obj cs1 cs2) = transform_point (position obj) cs1 cs2"
  by (simp add: transform_object_def Let_def Object_call_def Object_init_def)

lemma rotation_transform_object:
  "rotation (transform_object obj cs1 cs2) = mat_mul (mat_T (R cs2)) (mat_mul (R cs1) (rotation obj))"
  by (simp add: transform_object_def Let_def)

lemma is_rotation_transform_object:
  assumes "is_rotation (R cs1)" "is_rotation (R cs2)" "is_rotation (rotation obj)"
  shows "is_rotation (rotation (transform_object obj cs1 cs2))"
  unfolding rotation_transform_object
  using assms by (intro is_rotation_mul is_rotation_T)

section \<open>Sine and cosine of six degrees\<close>

lemma sin_5x: "sin (5 * x) = 16 * sin x ^ 5 - 20 * sin x ^ 3 + 5 * sin (x::real)"
proof -
  define s c where "s = sin x" and "c = cos x"
  have cc: "c * c = 1 - s * s"
    using sin_cos_squared_add [of x] by (simp add: s_def c_def power2_eq_square algebra_simps)
  have s2: "sin (2 * x) = 2 * s * c" by (simp add: sin_double s_def c_def)
  have c2: "cos (2 * x) = 1 - 2 * (s * s)"
    by (simp add: cos_double_sin s_def power2_eq_square)
  have "sin (3 * x) = sin (2 * x + x)" by simp
  also have "\<dots> = 2 * s * (c * c) + (1 - 2 * (s * s)) * s"
    unfolding sin_add s2 c2 by (simp add: s_def c_def algebra_simps)
  also have "\<dots> = 3 * s - 4 * (s * s * s)"
    unfolding cc by (simp add: algebra_simps)
  finally have s3: "sin (3 * x) = 3 * s - 4 * (s * s * s)" .
  have "cos (3 * x) = cos (2 * x + x)" by simp
  also have "\<dots> = (1 - 2 * (s * s)) * c - 2 * s * c * s"
    unfolding cos_add s2 c2 by (simp add: s_def c_def)
  also have "\<dots> = c * (1 - 4 * (s * s))"
    by (simp add: algebra_simps)
  finally have c3: "cos (3 * x) = c * (1 - 4 * (s * s))" .
  have "sin (5 * x) = sin (2 * x + 3 * x)" by simp
  also have "\<dots> = 2 * s * (c * c) * (1 - 4 * (s * s)) + (1 - 2 * (s * s)) * (3 * s - 4 * (s * s * s))"
    unfolding sin_add s2 c2 s3 c3 by (simp add: algebra_simps)
  also have "\<dots> = 16 * s ^ 5 - 20 * s ^ 3 + 5 * s"
    unfolding cc by (simp add: algebra_simps power3_eq_cube eval_nat_numeral)
  finally show ?thesis by (simp add: s_def)
qed

lemma quartic_antimono:
  assumes "0 \<le> x" "x \<le> y" "y \<le> 1 / 2"
  shows "quartic y \<le> quartic x"
proof -
  define a b c where "a = x * x" and "b = x * y" and "c = y * y"
  have a: "a \<le> 1 / 4" unfolding a_def using assms mult_mono [of x "1/2" x "1/2"] by simp
  have c: "c \<le> 1 / 4" unfolding c_def using assms mult_mono [of y "1/2" y "1/2"] by simp
  have b: "b \<le> 1 / 4" unfolding b_def using assms mult_mono [of x "1/2" y "1/2"] by simp
  have xy: "0 \<le> x + y" using assms by simp
  have "(x + y) * (a + c) \<le> (x + y) * (1 / 2)"
    using a c xy by (intro mult_left_mono) simp_all
  then have B: "16 * ((x + y) * (a + c)) + 8 * (a + b + c) - 16 * (x + y) - 8 \<le> 0"
    using a b c xy by simp
  have "quartic y - quartic x =
          (y - x) * (16 * ((x + y) * (a + c)) + 8 * (a + b + c) - 16 * (x + y) - 8)"
    by (simp add: quartic_def a_def b_def c_def algebra_simps eval_nat_numeral)
  also have "\<dots> \<le> 0"
    using B assms by (simp add: mult_le_0_iff)
  finally show ?thesis by simp
qed

lemma sin_6_deg_root: "quartic (sin (pi / 30)) = 0"
  and sin_6_deg_range: "0 < sin (pi / 30)" "sin (pi / 30) < 1 / 2"
proof -
  let ?s = "sin (pi / 30)"
  show pos: "0 < ?s" by (intro sin_gt_zero) simp_all
  have "?s < sin (pi / 6)"
    by (subst sin_mono_less_eq) simp_all
  then show lt: "?s < 1 / 2" by (simp add: sin_30)
  have "16 * ?s ^ 5 - 20 * ?s ^ 3 + 5 * ?s = 1 / 2"
    using sin_5x [of "pi / 30"] by (simp add: sin_30)
  then have "(?s - 1 / 2) * quartic ?s = 0"
    by (simp add: quartic_def algebra_simps eval_nat_numeral)
  with lt show "quartic ?s = 0" by simp
qed

lemma sin_6_deg_bounds: "10452 / 100000 < sin (pi / 30)" "sin (pi / 30) < 10453 / 100000"
proof -
  let ?s = "sin (pi / 30)"
  show "10452 / 100000 < ?s"
  proof (rule ccontr)
    assume "\<not> 10452 / 100000 < ?s"
    then have "quartic (10452 / 100000) \<le> quartic ?s"
      using sin_6_deg_range by (intro quartic_antimono) simp_all
    then show False by (simp add: sin_6_deg_root) (simp add: quartic_def power_divide)
  qed
  show "?s < 10453 / 100000"
  proof (rule ccontr)
    assume "\<not> ?s < 10453 / 100000"
    then have "quartic ?s \<le> quartic (10453 / 100000)"
      using sin_6_deg_range by (intro quartic_antimono) simp_all
    then show False by (simp add: sin_6_deg_root) (simp add: quartic_def power_divide)
  qed
qed

lemma cos_6_deg_bounds: "99452 / 100000 < cos (pi / 30)" "cos (pi / 30) < 99453 / 100000"
proof -
  let ?s = "sin (pi / 30)" and ?c = "cos (pi / 30)"
  have c0: "0 < ?c" by (intro cos_gt_zero) simp_all
  have cc: "?c * ?c = 1 - ?s * ?s"
    using sin_cos_squared_add [of "pi / 30"] by (simp add: power2_eq_square algebra_simps)
  have s0: "0 < ?s" by (rule sin_6_deg_range)
  have "?s * ?s < (10453 / 100000) * (10453 / 100000)"
    using sin_6_deg_bounds(2) s0 by (intro mult_strict_mono) simp_all
  then have lo: "(99452 / 100000) * (99452 / 100000) < ?c * ?c"
    unfolding cc by simp
  have "(10452 / 100000) * (10452 / 100000) < ?s * ?s"
    using sin_6_deg_bounds(1) by (intro mult_strict_mono) simp_all
  then have hi: "?c * ?c < (99453 / 100000) * (99453 / 100000)"
    unfolding cc by simp
  show "99452 / 100000 < ?c"
  proof (rule ccontr)
    assume "\<not> 99452 / 100000 < ?c"
    then have "?c * ?c \<le> (99452 / 100000) * (99452 / 100000)"
      using c0 by (intro mult_mono) simp_all
    with lo show False by simp
  qed
  show "?c < 99453 / 100000"
  proof (rule ccontr)
    assume "\<not> ?c < 99453 / 100000"
    then have "(99453 / 100000) * (99453 / 100000) \<le> ?c * ?c"
      by (intro mult_mono) simp_all
    with hi show False by simp
  qed
qed

section \<open>The two scenarios of the specification\<close>

lemma radians_0: "radians 0 = 0" by (simp add: radians_def)
lemma radians_90: "radians 90 = pi / 2" by (simp add: radians_def)
lemma radians_6: "radians 6 = pi / 30" by (simp add: radians_def)

lemma rot_x_0: "rot_x 0 = mat_id" by (simp add: rot_x_def radians_0 mat_id_def)
lemma rot_y_0: "rot_y 0 = mat_id" by (simp add: rot_y_def radians_0 mat_id_def)
lemma rot_z_0: "rot_z 0 = mat_id" by (simp add: rot_z_def radians_0 mat_id_def)

lemma R_init_z:
  "R (CoordinateSystem_init origin0 0 0 z_deg) = rot_z z_deg"
  by (simp add: CoordinateSystem_init_def Let_def rot_x_0 rot_y_0 mat_mul_id_right)

lemma origin_init: "origin (CoordinateSystem_init origin0 x y z) = origin0"
  by (simp add: CoordinateSystem_init_def Let_def)

lemma scenario_6_value:
  "transform_point (Vec3 1 0 0)
     (CoordinateSystem_init (Vec3 0 0 0) 0 0 0) (CoordinateSystem_init (Vec3 10 5 3) 0 0 6)
   = Vec3 (- 9 * cos (pi / 30) - 5 * sin (pi / 30)) (9 * sin (pi / 30) - 5 * cos (pi / 30)) (- 3)"
  by (simp add: transform_point_def Let_def R_init_z origin_init rot_z_def radians_0 radians_6)

section \<open>Runs on the store\<close>

lemma deref_append: "deref h a = Some c \<Longrightarrow> deref (h @ ext) a = Some c"
  by (auto simp: deref_def nth_append split: if_splits)

lemma get_vec_append: "get_vec h a = Some v \<Longrightarrow> get_vec (h @ ext) a = Some v"
  by (auto simp: get_vec_def dest: deref_append [where ext = ext] split: option.splits cell.splits)

lemma get_mat_append: "get_mat h a = Some v \<Longrightarrow> get_mat (h @ ext) a = Some v"
  by (auto simp: get_mat_def dest: deref_append [where ext = ext] split: option.splits cell.splits)

lemma getattr_append: "getattr h a n = Some v \<Longrightarrow> getattr (h @ ext) a n = Some v"
  by (auto simp: getattr_def dest: deref_append [where ext = ext] split: option.splits cell.splits)

lemma get_vec_new: "get_vec (h @ Array1 v # ext) (length h) = Some v"
  by (simp add: get_vec_def deref_def)

lemma get_mat_new: "get_mat (h @ Array2 m # ext) (length h) = Some m"
  by (simp add: get_mat_def deref_def)

lemma read_CoordinateSystemD:
  assumes "read_CoordinateSystem h cs = Some c"
  obtains o1 r1 where "getattr h cs ''origin'' = Some o1" "getattr h cs ''R'' = Some r1"
        "get_vec h o1 = Some (origin c)" "get_mat h r1 = Some (R c)"
  using assms by (auto simp: read_CoordinateSystem_def split: bind_splits)

lemma read_ObjectD:
  assumes "read_Object h obj = Some ob"
  obtains p r where "getattr h obj ''position'' = Some p" "getattr h obj ''rotation'' = Some r"
        "get_vec h p = Some (position ob)" "get_mat h r = Some (rotation ob)"
  using assms by (auto simp: read_Object_def split: bind_splits)

lemma transform_point_st_ok:
  assumes "get_vec h point = Some p"
      and "read_CoordinateSystem h cs1 = Some c1"
      and "read_CoordinateSystem h cs2 = Some c2"
  shows "transform_point_st point cs1 cs2 h =
           Some (length h + 5, h @ transform_point_cells p c1 c2)"
proof -
  from assms(2) obtain o1 r1 where
    c1: "getattr h cs1 ''origin'' = Some o1" "getattr h cs1 ''R'' = Some r1"
        "get_vec h o1 = Some (origin c1)" "get_mat h r1 = Some (R c1)"
    by (rule read_CoordinateSystemD)
  from assms(3) obtain o2 r2 where
    c2: "getattr h cs2 ''origin'' = Some o2" "getattr h cs2 ''R'' = Some r2"
        "get_vec h o2 = Some (origin c2)" "get_mat h r2 = Some (R c2)"
    by (rule read_CoordinateSystemD)
  note ap = getattr_append get_vec_append get_mat_append
  show ?thesis
    apply (simp add: transform_point_st_def np_array_def np_matvec_def np_add_def np_sub_def np_T_def alloc_def assms(1))
    apply (simp add: c1 c2 ap get_vec_new get_mat_new)
    apply (simp add: get_vec_def get_mat_def deref_def nth_append transform_point_def Let_def transform_point_cells_def)
    done
qed

lemma Object_new_ok:
  assumes "get_vec h position0 = Some p"
  shows "Object_new position0 x y z h =
           Some (length h, h @ Object_new_cells (length h) p
                   (arg_default x 0) (arg_default y 0) (arg_default z 0))"
  apply (simp add: Object_new_def Object_init_st_def np_array_def np_matmul_def alloc_def
      get_vec_append [OF assms])
  apply (simp add: get_vec_def get_mat_def deref_def nth_append setattr_def
      Object_new_cells_def)
  done

lemma transform_object_st_ok:
  assumes "read_Object h obj = Some ob"
      and "read_CoordinateSystem h cs1 = Some c1"
      and "read_CoordinateSystem h cs2 = Some c2"
  shows "transform_object_st obj cs1 cs2 h =
           Some (length h + 9, h @ transform_object_cells (length h) ob c1 c2)"
proof -
  from assms(1) obtain p r where
    ob: "getattr h obj ''position'' = Some p" "getattr h obj ''rotation'' = Some r"
        "get_vec h p = Some (position ob)" "get_mat h r = Some (rotation ob)"
    by (rule read_ObjectD)
  from assms(2) obtain o1 r1 where
    c1: "getattr h cs1 ''origin'' = Some o1" "getattr h cs1 ''R'' = Some r1"
        "get_vec h o1 = Some (origin c1)" "get_mat h r1 = Some (R c1)"
    by (rule read_CoordinateSystemD)
  from assms(3) obtain o2 r2 where
    c2: "getattr h cs2 ''origin'' = Some o2" "getattr h cs2 ''R'' = Some r2"
        "get_vec h o2 = Some (origin c2)" "get_mat h r2 = Some (R c2)"
    by (rule read_CoordinateSystemD)
  note ap = getattr_append get_vec_append get_mat_append
  let ?h1 = "h @ transform_point_cells (position ob) c1 c2"
  have tp: "transform_point_st p cs1 cs2 h = Some (length h + 5, ?h1)"
    using ob(3) assms(2,3) by (rule transform_point_st_ok)
  let ?h4 = "?h1 @ [Array2 (mat_mul (R c1) (rotation ob)), Array2 (mat_T (R c2)),
                    Array2 (mat_mul (mat_T (R c2)) (mat_mul (R c1) (rotation ob)))]"
  have gv: "get_vec ?h4 (length h + 5) = Some (transform_point (position ob) c1 c2)"
    by (simp add: get_vec_def deref_def nth_append transform_point_cells_def)
  have on: "Object_new (length h + 5) None None None ?h4 =
              Some (length ?h4, ?h4 @ Object_new_cells (length ?h4)
                      (transform_point (position ob) c1 c2) 0 0 0)"
    using Object_new_ok [OF gv, of None None None] by (simp add: arg_default_def)
  have "transform_object_st obj cs1 cs2 h =
          Object_new (length h + 5) None None None ?h4 \<bind>
            (\<lambda>(out, h5). setattr out ''rotation'' (length h + 8) h5 \<bind> (\<lambda>h6. Some (out, h6)))"
    apply (simp add: transform_object_st_def ob tp np_matmul_def np_T_def alloc_def c1 c2 ap)
    apply (simp add: transform_point_cells_def get_mat_def get_vec_def deref_def nth_append)
    apply (simp add: eval_nat_numeral)
    done
  also have "\<dots> = Some (length h + 9, h @ transform_object_cells (length h) ob c1 c2)"
    unfolding on
    by (simp add: setattr_def deref_def nth_append list_update_append
        transform_point_cells_def Object_new_cells_def transform_object_cells_def)
  finally show ?thesis .
qed


lemma read_Object_append: "read_Object h a = Some ob \<Longrightarrow> read_Object (h @ ext) a = Some ob"
  by (erule read_ObjectD)
     (simp add: read_Object_def getattr_append get_vec_append get_mat_append)

lemma read_CoordinateSystem_append:
  "read_CoordinateSystem h a = Some c \<Longrightarrow> read_CoordinateSystem (h @ ext) a = Some c"
  by (erule read_CoordinateSystemD)
     (simp add: read_CoordinateSystem_def getattr_append get_vec_append get_mat_append)

lemma read_Object_valid: "read_Object h a = Some ob \<Longrightarrow> a < length h"
  by (auto simp: read_Object_def getattr_def deref_def split: bind_splits if_splits)

lemma read_CoordinateSystem_valid: "read_CoordinateSystem h a = Some c \<Longrightarrow> a < length h"
  by (auto simp: read_CoordinateSystem_def getattr_def deref_def split: bind_splits if_splits)

lemma read_Object_out:
  "read_Object (h @ transform_object_cells (length h) ob c1 c2) (length h + 9) =
     Some (transform_object ob c1 c2)"
  by (simp add: read_Object_def getattr_def get_vec_def get_mat_def deref_def nth_append
      transform_object_cells_def transform_point_cells_def transform_object_def Let_def
      Object_call_def Object_init_def arg_default_def)

lemma deref_out:
  "deref (h @ transform_object_cells (length h) ob c1 c2) (length h + 9) =
     Some (Instance Object_cls
       [(''rotation'', length h + 8), (''rotation'', length h + 15), (''position'', length h + 10)])"
  by (simp add: deref_def nth_append transform_object_cells_def transform_point_cells_def)

section \<open>Rounding and runs in float64\<close>

lemma rne_of_int: "rne (of_int n) = n"
  by (simp add: rne_def)


lemma pow2_powr: "pow2 e = 2 powr (of_int e)"
  by (simp add: pow2_def powr_real_of_int inverse_eq_divide)

lemma f64_round_eval:
  assumes "pow2 k \<le> \<bar>x\<bar>" "\<bar>x\<bar> < pow2 (k + 1)" "- 1022 \<le> k"
  shows "f64_round x =
     (let y = of_int (rne (x / pow2 (k - 52))) * pow2 (k - 52)
      in if \<bar>y\<bar> < 2 ^ 1024 then Some y else None)"
proof -
  have pos: "0 < \<bar>x\<bar>"
    using assms(1) by (smt (verit) pow2_powr powr_gt_zero)
  have "\<lfloor>log 2 \<bar>x\<bar>\<rfloor> = k"
    using assms(1,2) pos by (subst floor_log_eq_powr_iff) (simp_all add: pow2_powr)
  with pos assms(3) show ?thesis
    by (simp add: f64_round_def Let_def max_def)
qed





lemma f64_round_m1: "f64_round (- 1) = Some (- 1)"
  by (subst f64_round_eval [where k = 0]) (simp_all add: pow2_def rne_of_int [of "- (2 ^ 52)", simplified])














section \<open>The claims\<close>

text \<open>
  C1. For every point \<open>p\<close> and every pair of coordinate systems \<open>cs1\<close>, \<open>cs2\<close>,
  \<open>transform_point p cs1 cs2\<close> is the transposed orientation of \<open>cs2\<close> applied to
  \<open>origin cs1 + R cs1 \<cdot> p - origin cs2\<close>: the point is first taken to the global frame with
  the origin and orientation of \<open>cs1\<close> and then to the frame of \<open>cs2\<close>.
\<close>

theorem transform_point_formula:
  "transform_point p cs1 cs2 =
     mat_vec (mat_T (R cs2)) (vec_sub (vec_add (origin cs1) (mat_vec (R cs1) p)) (origin cs2))"
  by (simp add: transform_point_def Let_def)

text \<open>
  C2. For every object and every pair of coordinate systems, \<open>transform_object\<close> returns an
  object whose position is \<open>transform_point\<close> of the position of the input and whose rotation
  is the transposed orientation of \<open>cs2\<close> times (the orientation of \<open>cs1\<close> times the rotation
  of the input).
\<close>

theorem transform_object_formula:
  "position (transform_object obj cs1 cs2) = transform_point (position obj) cs1 cs2 \<and>
   rotation (transform_object obj cs1 cs2) =
     mat_mul (mat_T (R cs2)) (mat_mul (R cs1) (rotation obj))"
  by (simp add: transform_object_def Let_def Object_call_def Object_init_def)

text \<open>
  C3. For all three angles, each of which may be left out and is then 0, the orientation
  that the constructor of a coordinate system builds and the rotation that the constructor of
  an object builds are both the product \<open>Rz \<cdot> Ry \<cdot> Rx\<close> of the elementary rotations, in this
  order; the product is taken from the left, and by associativity it is also
  \<open>Rz \<cdot> (Ry \<cdot> Rx)\<close>.
\<close>

theorem constructors_build_Rz_Ry_Rx:
  "R (CoordinateSystem_call origin0 x_deg y_deg z_deg) =
     mat_mul (mat_mul (rot_z (arg_default z_deg 0)) (rot_y (arg_default y_deg 0)))
       (rot_x (arg_default x_deg 0)) \<and>
   rotation (Object_call position0 x_deg y_deg z_deg) =
     mat_mul (mat_mul (rot_z (arg_default z_deg 0)) (rot_y (arg_default y_deg 0)))
       (rot_x (arg_default x_deg 0)) \<and>
   R (CoordinateSystem_call origin0 x_deg y_deg z_deg) =
     mat_mul (rot_z (arg_default z_deg 0))
       (mat_mul (rot_y (arg_default y_deg 0)) (rot_x (arg_default x_deg 0))) \<and>
   arg_default None 0 = 0 \<and> arg_default (Some a) 0 = a"
  by (simp add: CoordinateSystem_call_def CoordinateSystem_init_def Object_call_def
      Object_init_def Let_def mat_mul_assoc arg_default_def)

text \<open>
  C4. For every angle, \<open>rot_x\<close>, \<open>rot_y\<close> and \<open>rot_z\<close> return a proper rotation: the matrix
  times its transpose is the identity and the determinant is 1. Every product of proper
  rotations is one, and so are the orientation of every constructed coordinate system, the
  rotation of every constructed object, and the rotation that \<open>transform_object\<close> computes
  from proper rotations. The equalities are exact in real arithmetic, hence within every
  tolerance.
\<close>

theorem rotation_invariant:
  "is_rotation (rot_x deg) \<and> is_rotation (rot_y deg) \<and> is_rotation (rot_z deg) \<and>
   (is_rotation A \<and> is_rotation B \<longrightarrow> is_rotation (mat_mul A B)) \<and>
   is_rotation (R (CoordinateSystem_call origin0 x_deg y_deg z_deg)) \<and>
   is_rotation (rotation (Object_call position0 x_deg y_deg z_deg)) \<and>
   (is_rotation (R cs1) \<and> is_rotation (R cs2) \<and> is_rotation (rotation obj) \<longrightarrow>
      is_rotation (rotation (transform_object obj cs1 cs2)))"
  by (simp add: is_rotation_rot_x is_rotation_rot_y is_rotation_rot_z is_rotation_mul
      is_rotation_CoordinateSystem_call is_rotation_Object_call is_rotation_transform_object)

theorem rotation_invariant_witness:
  "is_rotation (rot_z 6) \<and> is_rotation (rot_x 30) \<and>
   is_rotation (mat_mul (rot_z 6) (rot_x 30)) \<and>
   is_rotation (R \<lparr> origin = Vec3 0 0 0, R = mat_id \<rparr>) \<and>
   is_rotation (R \<lparr> origin = Vec3 10 5 3, R = rot_z 6 \<rparr>) \<and>
   is_rotation (rotation \<lparr> position = Vec3 1 0 0, rotation = rot_x 30 \<rparr>) \<and>
   is_rotation (rotation (transform_object \<lparr> position = Vec3 1 0 0, rotation = rot_x 30 \<rparr>
      \<lparr> origin = Vec3 0 0 0, R = mat_id \<rparr> \<lparr> origin = Vec3 10 5 3, R = rot_z 6 \<rparr>))"
proof -
  have z: "is_rotation (rot_z 6)"
    using rotation_invariant [where deg = 6] by blast
  have x: "is_rotation (rot_x 30)"
    using rotation_invariant [where deg = 30] by blast
  have i: "is_rotation mat_id"
    by (simp add: is_rotation_def mat_id_def)
  show ?thesis
    using z x i
      rotation_invariant [where A = "rot_z 6" and B = "rot_x 30"
        and ?cs1.0 = "\<lparr> origin = Vec3 0 0 0, R = mat_id \<rparr>"
        and ?cs2.0 = "\<lparr> origin = Vec3 10 5 3, R = rot_z 6 \<rparr>"
        and obj = "\<lparr> position = Vec3 1 0 0, rotation = rot_x 30 \<rparr>"]
    by simp
qed




text \<open>
  C6, as the specification states it: with both frames at the origin, the first with angles
  (0, 0, 0) and the second with angles (0, 0, 90), the point [1, 0, 0] of the first frame is
  about [0, 1, 0] in the second. The program returns [0, -1, 0], which is not within 1 of
  [0, 1, 0] in the second coordinate.
\<close>

theorem scenario_90_not_plus_y:
  "\<not> vec_allclose
      (transform_point (Vec3 1 0 0)
         (CoordinateSystem_init (Vec3 0 0 0) 0 0 0) (CoordinateSystem_init (Vec3 0 0 0) 0 0 90))
      (Vec3 0 1 0) 0 1"
  by (simp add: transform_point_def Let_def R_init_z origin_init rot_z_def radians_0 radians_90
      isclose_def)

text \<open>
  C6, amended: with both frames at the origin, the first with angles (0, 0, 0) and the second
  with angles (0, 0, 90), \<open>transform_point\<close> takes the point [1, 0, 0] of the first frame to
  [0, -1, 0].
\<close>

theorem scenario_90_value:
  "transform_point (Vec3 1 0 0)
     (CoordinateSystem_init (Vec3 0 0 0) 0 0 0) (CoordinateSystem_init (Vec3 0 0 0) 0 0 90)
   = Vec3 0 (- 1) 0"
  by (simp add: transform_point_def Let_def R_init_z origin_init rot_z_def radians_0 radians_90)

text \<open>
  C7, as the specification states it: for the frames of the self-test,
  \<open>cs1\<close> at [0, 0, 0] with angles (0, 0, 0) and \<open>cs2\<close> at [10, 5, 3] with angles (0, 0, 6), the
  result for the point [1, 0, 0] is about [-8.947, -5.209, -3.0]. The value of the program is
  not within 0.1 of it.
\<close>

theorem scenario_6_not_spec_value:
  "\<not> vec_allclose
      (transform_point (Vec3 1 0 0)
         (CoordinateSystem_init (Vec3 0 0 0) 0 0 0) (CoordinateSystem_init (Vec3 10 5 3) 0 0 6))
      (Vec3 (- 8947 / 1000) (- 5209 / 1000) (- 3)) 0 (1 / 10)"
  unfolding scenario_6_value
  using sin_6_deg_bounds cos_6_deg_bounds
  by (simp add: isclose_def abs_le_iff)

text \<open>
  C7, amended: for the frames of the self-test and the point [1, 0, 0], the result of
  \<open>transform_point\<close> equals the transposed orientation of \<open>cs2\<close> applied to
  \<open>origin cs1 + R cs1 \<cdot> p - origin cs2\<close>, so the comparison of the self-test holds, and the
  value is [-9 cos 6\<degree> - 5 sin 6\<degree>, 9 sin 6\<degree> - 5 cos 6\<degree>, -3], within 0.001 of
  [-9.473, -4.032, -3.0].
\<close>

theorem scenario_6_result:
  "transform_point (Vec3 1 0 0)
     (CoordinateSystem_init (Vec3 0 0 0) 0 0 0) (CoordinateSystem_init (Vec3 10 5 3) 0 0 6) =
   mat_vec (mat_T (R (CoordinateSystem_init (Vec3 10 5 3) 0 0 6)))
     (vec_sub
        (vec_add (origin (CoordinateSystem_init (Vec3 0 0 0) 0 0 0))
           (mat_vec (R (CoordinateSystem_init (Vec3 0 0 0) 0 0 0)) (Vec3 1 0 0)))
        (origin (CoordinateSystem_init (Vec3 10 5 3) 0 0 6))) \<and>
   vec_allclose
     (transform_point (Vec3 1 0 0)
        (CoordinateSystem_init (Vec3 0 0 0) 0 0 0) (CoordinateSystem_init (Vec3 10 5 3) 0 0 6))
     (mat_vec (mat_T (R (CoordinateSystem_init (Vec3 10 5 3) 0 0 6)))
        (vec_sub
           (vec_add (origin (CoordinateSystem_init (Vec3 0 0 0) 0 0 0))
              (mat_vec (R (CoordinateSystem_init (Vec3 0 0 0) 0 0 0)) (Vec3 1 0 0)))
           (origin (CoordinateSystem_init (Vec3 10 5 3) 0 0 6))))
     (1 / 100000) (1 / 100000000) \<and>
   transform_point (Vec3 1 0 0)
     (CoordinateSystem_init (Vec3 0 0 0) 0 0 0) (CoordinateSystem_init (Vec3 10 5 3) 0 0 6) =
   Vec3 (- 9 * cos (pi / 30) - 5 * sin (pi / 30)) (9 * sin (pi / 30) - 5 * cos (pi / 30)) (- 3) \<and>
   vec_allclose
     (transform_point (Vec3 1 0 0)
        (CoordinateSystem_init (Vec3 0 0 0) 0 0 0) (CoordinateSystem_init (Vec3 10 5 3) 0 0 6))
     (Vec3 (- 9473 / 1000) (- 4032 / 1000) (- 3)) 0 (1 / 1000)"
proof -
  let ?r = "transform_point (Vec3 1 0 0)
     (CoordinateSystem_init (Vec3 0 0 0) 0 0 0) (CoordinateSystem_init (Vec3 10 5 3) 0 0 6)"
  have f: "?r = mat_vec (mat_T (R (CoordinateSystem_init (Vec3 10 5 3) 0 0 6)))
     (vec_sub
        (vec_add (origin (CoordinateSystem_init (Vec3 0 0 0) 0 0 0))
           (mat_vec (R (CoordinateSystem_init (Vec3 0 0 0) 0 0 0)) (Vec3 1 0 0)))
        (origin (CoordinateSystem_init (Vec3 10 5 3) 0 0 6)))"
    by (simp add: transform_point_def Let_def)
  have c: "vec_allclose ?r ?r (1 / 100000) (1 / 100000000)"
    by (simp add: vec_allclose_refl)
  have n: "vec_allclose ?r (Vec3 (- 9473 / 1000) (- 4032 / 1000) (- 3)) 0 (1 / 1000)"
    unfolding scenario_6_value
    using sin_6_deg_bounds cos_6_deg_bounds
    by (simp add: isclose_def abs_le_iff)
  show ?thesis
    using f c n scenario_6_value by metis
qed

text \<open>
  C8. For every object built with all angles 0, whether they are left out or given, the
  rotation is the identity, and for every pair of coordinate systems the position of
  \<open>transform_object\<close> of it is exactly \<open>transform_point\<close> of its position.
\<close>

theorem transform_object_point_only:
  "Object_call position0 None None None = Object_init position0 0 0 0 \<and>
   rotation (Object_init position0 0 0 0) = mat_id \<and>
   position (Object_init position0 0 0 0) = position0 \<and>
   position (transform_object (Object_init position0 0 0 0) cs1 cs2) =
     transform_point (position (Object_init position0 0 0 0)) cs1 cs2"
  by (simp add: position_transform_object Object_call_def arg_default_def Object_init_def
      Let_def rot_x_0 rot_y_0 rot_z_0 mat_mul_id_left)

text \<open>
  C9. \<open>transform_object\<close> does not change its arguments. On every store in which \<open>obj\<close> is an
  object and \<open>cs1\<close>, \<open>cs2\<close> are coordinate systems, the run returns; every cell of the store
  before the run is the same after it, so the object and both coordinate systems read as
  before; the result is a reference that was not allocated before, different from the three
  arguments, it is an instance of the class of objects, and it reads as the object that the
  pure \<open>transform_object\<close> computes.
\<close>

theorem transform_object_st_frame:
  assumes "read_Object h obj = Some ob"
      and "read_CoordinateSystem h cs1 = Some c1"
      and "read_CoordinateSystem h cs2 = Some c2"
  shows "\<exists>out h'. transform_object_st obj cs1 cs2 h = Some (out, h') \<and>
           take (length h) h' = h \<and>
           read_Object h' obj = Some ob \<and>
           read_CoordinateSystem h' cs1 = Some c1 \<and>
           read_CoordinateSystem h' cs2 = Some c2 \<and>
           length h \<le> out \<and> out < length h' \<and> out \<noteq> obj \<and> out \<noteq> cs1 \<and> out \<noteq> cs2 \<and>
           (\<exists>attrs. deref h' out = Some (Instance Object_cls attrs)) \<and>
           read_Object h' out = Some (transform_object ob c1 c2)"
proof -
  let ?h' = "h @ transform_object_cells (length h) ob c1 c2"
  have run: "transform_object_st obj cs1 cs2 h = Some (length h + 9, ?h')"
    using assms by (rule transform_object_st_ok)
  have len: "length h + 9 < length ?h'"
    by (simp add: transform_object_cells_def transform_point_cells_def)
  have fresh: "length h + 9 \<noteq> obj" "length h + 9 \<noteq> cs1" "length h + 9 \<noteq> cs2"
    using read_Object_valid [OF assms(1)] read_CoordinateSystem_valid [OF assms(2)]
      read_CoordinateSystem_valid [OF assms(3)] by simp_all
  show ?thesis
    using run len fresh read_Object_append [OF assms(1)]
      read_CoordinateSystem_append [OF assms(2)] read_CoordinateSystem_append [OF assms(3)]
      read_Object_out [of h ob c1 c2] deref_out [of h ob c1 c2]
    by simp
qed

theorem transform_object_st_frame_witness:
  "read_Object example_heap 2 = Some \<lparr> position = Vec3 1 0 0, rotation = mat_id \<rparr> \<and>
   read_CoordinateSystem example_heap 5 = Some \<lparr> origin = Vec3 0 0 0, R = mat_id \<rparr> \<and>
   read_CoordinateSystem example_heap 8 = Some \<lparr> origin = Vec3 10 5 3, R = rot_z 90 \<rparr> \<and>
   (\<exists>out h'. transform_object_st 2 5 8 example_heap = Some (out, h') \<and>
      take 9 h' = example_heap \<and> 9 \<le> out \<and> out < length h' \<and>
      read_Object h' 2 = Some \<lparr> position = Vec3 1 0 0, rotation = mat_id \<rparr> \<and>
      read_Object h' out =
        Some (transform_object \<lparr> position = Vec3 1 0 0, rotation = mat_id \<rparr>
                \<lparr> origin = Vec3 0 0 0, R = mat_id \<rparr> \<lparr> origin = Vec3 10 5 3, R = rot_z 90 \<rparr>))"
proof -
  have ob: "read_Object example_heap 2 = Some \<lparr> position = Vec3 1 0 0, rotation = mat_id \<rparr>"
    by (simp add: read_Object_def getattr_def get_vec_def get_mat_def deref_def example_heap_def)
  have c1: "read_CoordinateSystem example_heap 5 = Some \<lparr> origin = Vec3 0 0 0, R = mat_id \<rparr>"
    by (simp add: read_CoordinateSystem_def getattr_def get_vec_def get_mat_def deref_def
        example_heap_def)
  have c2: "read_CoordinateSystem example_heap 8 = Some \<lparr> origin = Vec3 10 5 3, R = rot_z 90 \<rparr>"
    by (simp add: read_CoordinateSystem_def getattr_def get_vec_def get_mat_def deref_def
        example_heap_def)
  have len: "length example_heap = 9" by (simp add: example_heap_def)
  show ?thesis
    using transform_object_st_frame [OF ob c1 c2] ob c1 c2 unfolding len by blast
qed




end
